theory Spec2Isabelle
  imports Complex_Main
begin

section \<open>Data model\<close>

text \<open>
  The backend has two resources, users and books, each a TypeORM entity kept in a
  Postgres table and reached through a \<open>Repository\<close>. A table is modelled as the list of
  its rows, in insertion order. The columns \<open>createdAt\<close> and \<open>updatedAt\<close> are written by
  the persistence layer alone and read by no service or controller; they are left out of
  the rows.

  The primary keys are \<open>uuid\<close> columns. A row holds its identifier in the text form the
  database prints; the identifier the database generates on insert is a parameter
  \<open>newId\<close> of the operation that inserts. A request names a row by a string that the
  database first reads as a \<open>uuid\<close>: the reading is the parameter \<open>uuid_in\<close> of every
  operation that looks a row up by its identifier, \<open>uuid_in s = Some c\<close> when \<open>s\<close> is a
  spelling of the identifier printed as \<open>c\<close>, and \<open>None\<close> when \<open>s\<close> is no \<open>uuid\<close> at all,
  in which case the query fails.

  The field \<open>id\<close> of both entities is written \<open>user_id\<close> and \<open>book_id\<close>, since \<open>id\<close> is
  the identity function of HOL.
\<close>

text \<open>
  Modelled from the spec: the User entity (\<open>src/users/user.entity.ts\<close> is not among the
  sources). Section 3 of the specification lists its fields: identifier, email, name
  and password (stored as a salted hash). The controller reads \<open>user.id\<close>, \<open>user.email\<close>
  and \<open>user.password\<close> of the rows that \<open>findOne\<close> returns.
\<close>

record User =
  user_id :: string
  email :: string
  name :: string
  password :: string

text \<open>
  The Book entity of \<open>src/books/book.entity.ts\<close>. \<open>BookColumns\<close> is a book as a query
  that joins no relation returns it; \<open>Book\<close> adds the nullable relation \<open>buyer\<close>, as a
  query with \<open>relations: ['buyer']\<close> returns it. The book table holds each row together
  with the user that its column \<open>buyerId\<close> refers to.
\<close>

record BookColumns =
  book_id :: string
  title :: string
  author :: string
  price :: rat
  isSold :: bool

record Book = BookColumns +
  buyer :: "User option"


text \<open>
  Modelled from the spec: the data transfer objects \<open>CreateUserDto\<close>, \<open>LoginDto\<close> and
  \<open>CreateBookDto\<close> (their files are not among the sources). The tests build them as
  \<open>{name, email, password}\<close>, \<open>{email, password}\<close> and \<open>{title, author, price}\<close>; the
  specification says that book creation forces \<open>isSold\<close> to false "regardless of input",
  so the book payload may carry an \<open>isSold\<close> of its own. An optional property is an
  \<open>option\<close>. Their fields carry a prefix, since record fields share one name space.
\<close>

record CreateUserDto =
  cu_name :: string
  cu_email :: string
  cu_password :: string

record LoginDto =
  login_email :: string
  login_password :: string

record CreateBookDto =
  cb_title :: string
  cb_author :: string
  cb_price :: rat
  cb_isSold :: "bool option"


text \<open>\<open>UpdateBookDto\<close>, as declared in the sources: every property is optional.\<close>

record UpdateBookDto =
  ub_title :: "string option"
  ub_author :: "string option"
  ub_price :: "rat option"
  ub_isSold :: "bool option"

subsection \<open>HTTP responses\<close>

datatype json =
    JNull
  | JBool bool
  | JNum rat
  | JStr string
  | JArr "json list"
  | JObj "(string \<times> json) list"

text \<open>
  \<open>res.status(n).json(v)\<close> is the response with status \<open>n\<close> and body \<open>Some v\<close>;
  \<open>res.status(n).send()\<close> has no body.
\<close>

record Response =
  status :: nat
  body :: "json option"

definition message :: "string \<Rightarrow> json" where
  "message m = JObj [(''message'', JStr m)]"


subsection \<open>Errors\<close>

text \<open>
  What a call can throw: the database refuses a string that is no \<open>uuid\<close>
  (\<open>InvalidUuid\<close>) or a delete that would leave a book pointing at a missing user
  (\<open>ForeignKeyViolation\<close>), TypeORM refuses a delete with an empty criterion
  (\<open>EmptyCriteria\<close>), and the JWT library refuses to sign (\<open>SigningError\<close>). An operation
  that can throw returns \<open>Inl\<close> the error or \<open>Inr\<close> its result; every throw of this
  model comes before the operation has written, so \<open>Inl\<close> leaves the tables as they
  were. A controller method without \<open>try\<close> lets the error through: its \<open>Inl\<close> is the
  exception that leaves the handler, which the framework answers with status 500
  (\<open>framework_status\<close>). A controller method that writes returns the table beside its
  outcome, unchanged when the outcome is an error.
\<close>

datatype error = InvalidUuid | EmptyCriteria | ForeignKeyViolation | SigningError

definition framework_status :: "error + Response \<Rightarrow> nat" where
  "framework_status r = (case r of Inl e \<Rightarrow> 500 | Inr res \<Rightarrow> status res)"

section \<open>The repository\<close>

text \<open>
  The calls of TypeORM's \<open>Repository\<close> that the services use. \<open>find\<close> and \<open>findOne\<close> take
  a \<open>where\<close> condition; \<open>repo_findOneById\<close> is \<open>findOne({ where: { id } })\<close>, where the
  database reads the string as a \<open>uuid\<close> and compares identifiers, not spellings.
  \<open>delete\<close> by primary key returns \<open>affected\<close>, the number of rows removed; it throws on
  an empty criterion, on a string that is no \<open>uuid\<close>, and when it would remove a row
  that a foreign key still refers to (\<open>referenced\<close>). \<open>save\<close> of an entity that was
  loaded from the table (\<open>repo_save\<close>) updates the row with the entity's primary key when
  there is one and inserts the entity otherwise; \<open>save\<close> of an entity fresh from
  \<open>create\<close>, which has no primary key yet (\<open>repo_insert\<close>), inserts it under the
  identifier the database generates. A lost connection and the unique index on the
  email column are outside the model.
\<close>

definition repo_find :: "('a \<Rightarrow> bool) \<Rightarrow> 'a list \<Rightarrow> 'a list" where
  "repo_find wh rows = filter wh rows"

definition repo_findOne :: "('a \<Rightarrow> bool) \<Rightarrow> 'a list \<Rightarrow> 'a option" where
  "repo_findOne wh rows = find wh rows"

definition repo_findOneById ::
  "(string \<Rightarrow> string option) \<Rightarrow> ('a \<Rightarrow> string) \<Rightarrow> string \<Rightarrow> 'a list \<Rightarrow> error + 'a option" where
  "repo_findOneById uuid_in key i rows =
     (case uuid_in i of
        None \<Rightarrow> Inl InvalidUuid
      | Some c \<Rightarrow> Inr (repo_findOne (\<lambda>r. key r = c) rows))"

definition repo_delete ::
  "(string \<Rightarrow> string option) \<Rightarrow> ('a \<Rightarrow> string) \<Rightarrow> (string \<Rightarrow> bool) \<Rightarrow> string \<Rightarrow> 'a list
     \<Rightarrow> error + (nat \<times> 'a list)" where
  "repo_delete uuid_in key referenced i rows =
     (if i = [] then Inl EmptyCriteria
      else case uuid_in i of
             None \<Rightarrow> Inl InvalidUuid
           | Some c \<Rightarrow>
               if c \<in> set (map key rows) \<and> referenced c then Inl ForeignKeyViolation
               else Inr (length (filter (\<lambda>r. key r = c) rows), filter (\<lambda>r. key r \<noteq> c) rows))"

definition repo_save :: "('a \<Rightarrow> string) \<Rightarrow> 'a \<Rightarrow> 'a list \<Rightarrow> 'a list" where
  "repo_save key e rows =
     (if key e \<in> set (map key rows)
      then map (\<lambda>r. if key r = key e then e else r) rows
      else rows @ [e])"

definition repo_insert :: "'a \<Rightarrow> 'a list \<Rightarrow> 'a list" where
  "repo_insert e rows = rows @ [e]"

section \<open>UsersService\<close>


definition findUserById ::
  "(string \<Rightarrow> string option) \<Rightarrow> string \<Rightarrow> User list \<Rightarrow> error + User option" where
  "findUserById uuid_in i repo = repo_findOneById uuid_in user_id i repo"

definition findUsersByEmail :: "string \<Rightarrow> User list \<Rightarrow> User option" where
  "findUsersByEmail e repo = repo_findOne (\<lambda>u. email u = e) repo"

definition addUser :: "CreateUserDto \<Rightarrow> string \<Rightarrow> User list \<Rightarrow> User \<times> User list" where
  "addUser dto newId repo =
     (let entity = \<lparr>user_id = newId, email = cu_email dto, name = cu_name dto,
                    password = cu_password dto\<rparr>
      in (entity, repo_insert entity repo))"



text \<open>
  The relation \<open>buyer\<close> of a book is a foreign key from the book table to the user
  table, declared without \<open>onDelete\<close> and created by \<open>synchronize: true\<close>: the database
  refuses to delete a user that a book has as its buyer. \<open>references_user books c\<close> says
  that some book has the user \<open>c\<close> as buyer. \<open>removeUser\<close> therefore reads the book table
  \<open>books\<close> beside the user table it writes.
\<close>

definition references_user :: "Book list \<Rightarrow> string \<Rightarrow> bool" where
  "references_user books c =
     list_ex (\<lambda>b. case buyer b of Some u \<Rightarrow> user_id u = c | None \<Rightarrow> False) books"

definition removeUser ::
  "(string \<Rightarrow> string option) \<Rightarrow> Book list \<Rightarrow> string \<Rightarrow> User list \<Rightarrow> error + (bool \<times> User list)" where
  "removeUser uuid_in books i repo =
     (case repo_delete uuid_in user_id (references_user books) i repo of
        Inl e \<Rightarrow> Inl e
      | Inr (affected, repo') \<Rightarrow> Inr (affected \<noteq> 0, repo'))"

text \<open>
  \<open>login\<close> awaits \<open>this.jwt.signAsync({ user: { email } }, { secret:
  process.env.JWT_SECRET, expiresIn: '10m' })\<close> and wraps the token; a rejected promise
  is thrown on. The signer is the parameter \<open>signAsync\<close>, the process environment the
  parameter \<open>env\<close>.
\<close>

record SignOptions =
  secret :: "string option"
  expiresIn :: string

definition login ::
  "(json \<Rightarrow> SignOptions \<Rightarrow> error + string) \<Rightarrow> (string \<rightharpoonup> string) \<Rightarrow> string \<Rightarrow> error + json" where
  "login signAsync env e =
     (case signAsync (JObj [(''user'', JObj [(''email'', JStr e)])])
                     \<lparr>secret = env ''JWT_SECRET'', expiresIn = ''10m''\<rparr> of
        Inl err \<Rightarrow> Inl err
      | Inr token \<Rightarrow> Inr (JObj [(''token'', JStr token)]))"

section \<open>UsersController\<close>

text \<open>
  \<open>bcrypt.hash\<close> and \<open>bcrypt.compare\<close> are parameters: \<open>bcrypt_hash p 10\<close> is the hash of
  the plain password \<open>p\<close> at cost 10, \<open>bcrypt_compare p h\<close> tells whether \<open>p\<close> matches the
  hash \<open>h\<close>. No method of this controller has a \<open>try\<close>.
\<close>

definition UsersController_create ::
  "(string \<Rightarrow> nat \<Rightarrow> string) \<Rightarrow> string \<Rightarrow> CreateUserDto \<Rightarrow> User list \<Rightarrow> Response \<times> User list" where
  "UsersController_create bcrypt_hash newId dto repo =
     (case findUsersByEmail (cu_email dto) repo of
        Some existing \<Rightarrow> (\<lparr>status = 400, body = Some (message ''User already exists'')\<rparr>, repo)
      | None \<Rightarrow>
          (let dto' = dto\<lparr>cu_password := bcrypt_hash (cu_password dto) 10\<rparr>
           in case addUser dto' newId repo of
                (user, repo') \<Rightarrow>
                  (\<lparr>status = 201,
                    body = Some (JObj [(''id'', JStr (user_id user)), (''email'', JStr (email user))])\<rparr>,
                   repo')))"



definition UsersController_remove ::
  "(string \<Rightarrow> string option) \<Rightarrow> Book list \<Rightarrow> string \<Rightarrow> User list
     \<Rightarrow> (error + Response) \<times> User list" where
  "UsersController_remove uuid_in books i repo =
     (case removeUser uuid_in books i repo of
        Inl e \<Rightarrow> (Inl e, repo)
      | Inr (ok, repo') \<Rightarrow>
          (Inr (if ok then \<lparr>status = 204, body = None\<rparr>
                else \<lparr>status = 404, body = Some (message ''User not found'')\<rparr>),
           repo'))"


definition UsersController_login ::
  "(string \<Rightarrow> string \<Rightarrow> bool) \<Rightarrow> (json \<Rightarrow> SignOptions \<Rightarrow> error + string) \<Rightarrow> (string \<rightharpoonup> string)
     \<Rightarrow> LoginDto \<Rightarrow> User list \<Rightarrow> error + Response" where
  "UsersController_login bcrypt_compare signAsync env dto repo =
     (case findUsersByEmail (login_email dto) repo of
        None \<Rightarrow> Inr \<lparr>status = 404, body = Some (message ''User not found'')\<rparr>
      | Some user \<Rightarrow>
          (let ok = bcrypt_compare (login_password dto) (password user)
           in if \<not> ok then Inr \<lparr>status = 401, body = Some (message ''Invalid credentials'')\<rparr>
              else (case login signAsync env (email user) of
                      Inl e \<Rightarrow> Inl e
                    | Inr token \<Rightarrow> Inr \<lparr>status = 200, body = Some token\<rparr>)))"

section \<open>BooksService\<close>

text \<open>
  The service holds two repositories: \<open>repo\<close>, the books, which it reads and writes, and
  \<open>users\<close>, which it only reads. An operation that writes returns the new book table
  beside its result. \<open>null\<close> is \<open>None\<close>.
\<close>

definition getBooks :: "Book list \<Rightarrow> Book list" where
  "getBooks repo = repo_find (\<lambda>b. True) repo"

definition findBookById ::
  "(string \<Rightarrow> string option) \<Rightarrow> string \<Rightarrow> Book list \<Rightarrow> error + Book option" where
  "findBookById uuid_in i repo = repo_findOneById uuid_in book_id i repo"

text \<open>
  \<open>addBook\<close> creates \<open>{ ...dto, isSold: false }\<close>: the spread copies the payload, then
  \<open>isSold\<close> is overwritten. A column the entity leaves out takes its default on insert:
  \<open>false\<close> for \<open>isSold\<close>, \<open>NULL\<close> for the buyer.
\<close>

definition addBook :: "CreateBookDto \<Rightarrow> string \<Rightarrow> Book list \<Rightarrow> Book \<times> Book list" where
  "addBook dto newId repo =
     (let data = dto\<lparr>cb_isSold := Some False\<rparr>;
          entity = \<lparr>book_id = newId, title = cb_title data, author = cb_author data,
                    price = cb_price data,
                    isSold = (case cb_isSold data of Some s \<Rightarrow> s | None \<Rightarrow> False),
                    buyer = None\<rparr>
      in (entity, repo_insert entity repo))"


text \<open>No foreign key refers to a book.\<close>

definition removeBook ::
  "(string \<Rightarrow> string option) \<Rightarrow> string \<Rightarrow> Book list \<Rightarrow> error + (bool \<times> Book list)" where
  "removeBook uuid_in i repo =
     (case repo_delete uuid_in book_id (\<lambda>c. False) i repo of
        Inl e \<Rightarrow> Inl e
      | Inr (affected, repo') \<Rightarrow> Inr (affected \<noteq> 0, repo'))"

definition markBookAsSold ::
  "(string \<Rightarrow> string option) \<Rightarrow> string \<Rightarrow> string \<Rightarrow> User list \<Rightarrow> Book list
     \<Rightarrow> error + (Book option \<times> Book list)" where
  "markBookAsSold uuid_in bookId userId users repo =
     (case findBookById uuid_in bookId repo of
        Inl e \<Rightarrow> Inl e
      | Inr None \<Rightarrow> Inr (None, repo)
      | Inr (Some book) \<Rightarrow>
          (case repo_findOneById uuid_in user_id userId users of
             Inl e \<Rightarrow> Inl e
           | Inr None \<Rightarrow> Inr (None, repo)
           | Inr (Some buyerUser) \<Rightarrow>
               (let book' = book\<lparr>isSold := True, buyer := Some buyerUser\<rparr>
                in Inr (Some book', repo_save book_id book' repo))))"

text \<open>\<open>Object.assign(b, dto)\<close>: each property the payload has overwrites the book's.\<close>

definition assign :: "Book \<Rightarrow> UpdateBookDto \<Rightarrow> Book" where
  "assign b dto =
     b\<lparr>title := (case ub_title dto of Some t \<Rightarrow> t | None \<Rightarrow> title b),
       author := (case ub_author dto of Some a \<Rightarrow> a | None \<Rightarrow> author b),
       price := (case ub_price dto of Some p \<Rightarrow> p | None \<Rightarrow> price b),
       isSold := (case ub_isSold dto of Some s \<Rightarrow> s | None \<Rightarrow> isSold b)\<rparr>"

definition updateBook ::
  "(string \<Rightarrow> string option) \<Rightarrow> string \<Rightarrow> UpdateBookDto \<Rightarrow> Book list
     \<Rightarrow> error + (Book option \<times> Book list)" where
  "updateBook uuid_in i dto repo =
     (case findBookById uuid_in i repo of
        Inl e \<Rightarrow> Inl e
      | Inr None \<Rightarrow> Inr (None, repo)
      | Inr (Some b) \<Rightarrow> (let b' = assign b dto in Inr (Some b', repo_save book_id b' repo)))"

definition confirmation :: "string \<Rightarrow> string \<Rightarrow> string" where
  "confirmation t userId =
     ''El libro '' @ t @ '' ha sido comprado por el usuario con ID '' @ userId @ ''.''"

definition buyBook ::
  "(string \<Rightarrow> string option) \<Rightarrow> string \<Rightarrow> string \<Rightarrow> User list \<Rightarrow> Book list
     \<Rightarrow> error + (string option \<times> Book list)" where
  "buyBook uuid_in userId bookId users repo =
     (case findBookById uuid_in bookId repo of
        Inl e \<Rightarrow> Inl e
      | Inr None \<Rightarrow> Inr (None, repo)
      | Inr (Some found) \<Rightarrow>
          if isSold found then Inr (None, repo)
          else (case markBookAsSold uuid_in bookId userId users repo of
                  Inl e \<Rightarrow> Inl e
                | Inr (None, repo') \<Rightarrow> Inr (None, repo')
                | Inr (Some saved, repo') \<Rightarrow>
                    Inr (Some (confirmation (title found) userId), repo')))"

section \<open>BooksController\<close>

text \<open>\<open>remove\<close> has no \<open>try\<close>: what \<open>removeBook\<close> throws leaves the handler.\<close>

definition BooksController_remove ::
  "(string \<Rightarrow> string option) \<Rightarrow> string \<Rightarrow> Book list \<Rightarrow> (error + Response) \<times> Book list" where
  "BooksController_remove uuid_in i repo =
     (case removeBook uuid_in i repo of
        Inl e \<Rightarrow> (Inl e, repo)
      | Inr (ok, repo') \<Rightarrow>
          (Inr (if ok then \<lparr>status = 204, body = None\<rparr>
                else \<lparr>status = 404, body = Some (message ''Book not found'')\<rparr>),
           repo'))"

text \<open>
  \<open>buy\<close> wraps the call in \<open>try\<close>: \<open>msg ? 200 : 404\<close> tests the truthiness of \<open>msg\<close>, so
  \<open>null\<close> and the empty string both give 404, and the \<open>catch\<close> answers 500 to whatever
  \<open>buyBook\<close> throws.
\<close>

definition BooksController_buy ::
  "(string \<Rightarrow> string option) \<Rightarrow> string \<Rightarrow> string \<Rightarrow> User list \<Rightarrow> Book list
     \<Rightarrow> Response \<times> Book list" where
  "BooksController_buy uuid_in bookId userId users repo =
     (case buyBook uuid_in userId bookId users repo of
        Inr (msg, repo') \<Rightarrow>
          ((case msg of
              Some m \<Rightarrow>
                if m \<noteq> [] then \<lparr>status = 200, body = Some (message m)\<rparr>
                else \<lparr>status = 404, body = Some (message ''Book not found or already sold'')\<rparr>
            | None \<Rightarrow> \<lparr>status = 404, body = Some (message ''Book not found or already sold'')\<rparr>),
           repo')
      | Inl e \<Rightarrow> (\<lparr>status = 500, body = Some (message ''Error buying book'')\<rparr>, repo))"

section \<open>The JWT service\<close>

text \<open>
  \<open>src/users/users.module.ts\<close> registers the JWT module with
  \<open>secret: process.env.JWT_SECRET ?? 'dev'\<close>: the secret of the module is the variable
  when it is defined, the empty string included, and the literal \<open>'dev'\<close> otherwise.
\<close>

definition JwtModule_secret :: "(string \<rightharpoonup> string) \<Rightarrow> string" where
  "JwtModule_secret env = (case env ''JWT_SECRET'' of Some s \<Rightarrow> s | None \<Rightarrow> ''dev'')"

text \<open>
  \<open>JwtService.signAsync\<close> belongs to the libraries \<open>@nestjs/jwt\<close> and \<open>jsonwebtoken\<close>, not
  to the repository; this is their behaviour as far as \<open>login\<close> uses it. The key is
  \<open>options.secret || moduleSecret\<close>: the secret of the call when it is a non-empty
  string, the secret of the module otherwise. Without a key the library throws
  ("secretOrPrivateKey must have a value"). With one, it adds to the payload the claim
  \<open>iat\<close>, the clock \<open>now\<close> in seconds, and the claim \<open>exp\<close>, \<open>iat\<close> plus the time span that
  \<open>expiresIn\<close> denotes, and signs the claims with HMAC-SHA256 under the key. The
  signature and the serialisation of the token are the parameter \<open>hs256\<close>.

  A time span is a number followed by a unit, of which \<open>s\<close>, \<open>m\<close>, \<open>h\<close> and \<open>d\<close> are
  modelled: \<open>'10m'\<close> is ten minutes, 600 seconds.
\<close>

definition digit_of :: "char \<Rightarrow> nat option" where
  "digit_of c =
     (let n = (of_char c :: nat) in if 48 \<le> n \<and> n \<le> 57 then Some (n - 48) else None)"

fun number_of :: "nat \<Rightarrow> string \<Rightarrow> nat option" where
  "number_of acc [] = Some acc"
| "number_of acc (c # cs) =
     (case digit_of c of None \<Rightarrow> None | Some d \<Rightarrow> number_of (acc * 10 + d) cs)"

definition timespan :: "string \<Rightarrow> nat option" where
  "timespan s =
     (if length s < 2 then None
      else case number_of 0 (butlast s) of
             None \<Rightarrow> None
           | Some n \<Rightarrow>
               if last s = CHR ''s'' then Some n
               else if last s = CHR ''m'' then Some (n * 60)
               else if last s = CHR ''h'' then Some (n * 3600)
               else if last s = CHR ''d'' then Some (n * 86400)
               else None)"

definition JwtService_signAsync ::
  "(json \<Rightarrow> string \<Rightarrow> string) \<Rightarrow> nat \<Rightarrow> string \<Rightarrow> json \<Rightarrow> SignOptions \<Rightarrow> error + string" where
  "JwtService_signAsync hs256 now moduleSecret payload options =
     (let key = (case secret options of
                   Some s \<Rightarrow> if s \<noteq> [] then s else moduleSecret
                 | None \<Rightarrow> moduleSecret)
      in if key = [] then Inl SigningError
         else (case payload of
                 JObj claims \<Rightarrow>
                   (case timespan (expiresIn options) of
                      None \<Rightarrow> Inl SigningError
                    | Some seconds \<Rightarrow>
                        Inr (hs256 (JObj (claims @ [(''iat'', JNum (of_nat now)),
                                                    (''exp'', JNum (of_nat (now + seconds)))]))
                                   key))
               | _ \<Rightarrow> Inl SigningError))"

section \<open>The uuid type of Postgres\<close>

text \<open>
  The reading of a \<open>uuid\<close> that the examples below pass for \<open>uuid_in\<close>, after the input
  function of Postgres: sixteen bytes of two hexadecimal digits each, in either case, a
  hyphen allowed after each group of four digits, the whole optionally in braces, and
  nothing else. The identifier is printed in lower case in the groups 8-4-4-4-12.
\<close>

definition ascii_lower :: "char \<Rightarrow> char" where
  "ascii_lower c =
     (let n = (of_char c :: nat) in if 65 \<le> n \<and> n \<le> 90 then char_of (n + 32) else c)"

definition is_xdigit :: "char \<Rightarrow> bool" where
  "is_xdigit c =
     (let n = (of_char c :: nat)
      in (48 \<le> n \<and> n \<le> 57) \<or> (65 \<le> n \<and> n \<le> 70) \<or> (97 \<le> n \<and> n \<le> 102))"

fun uuid_bytes :: "nat \<Rightarrow> string \<Rightarrow> (string \<times> string) option" where
  "uuid_bytes 0 src = Some ([], src)"
| "uuid_bytes (Suc n) (a # b # src) =
     (if is_xdigit a \<and> is_xdigit b then
        (let i = 15 - n;
             src' = (case src of
                       c # rest \<Rightarrow> if c = CHR ''-'' \<and> odd i \<and> i < 15 then rest else src
                     | [] \<Rightarrow> src)
         in case uuid_bytes n src' of
              None \<Rightarrow> None
            | Some (ds, rest) \<Rightarrow> Some (ascii_lower a # ascii_lower b # ds, rest))
      else None)"
| "uuid_bytes (Suc n) src = None"

definition uuid_out :: "string \<Rightarrow> string" where
  "uuid_out ds =
     take 8 ds @ ''-'' @ take 4 (drop 8 ds) @ ''-'' @ take 4 (drop 12 ds) @ ''-''
       @ take 4 (drop 16 ds) @ ''-'' @ drop 20 ds"

definition pg_uuid_in :: "string \<Rightarrow> string option" where
  "pg_uuid_in source =
     (let braces = (case source of c # rest \<Rightarrow> c = CHR ''{'' | [] \<Rightarrow> False);
          src = (if braces then tl source else source)
      in case uuid_bytes 16 src of
           None \<Rightarrow> None
         | Some (ds, rest) \<Rightarrow>
             if rest = (if braces then ''}'' else []) then Some (uuid_out ds) else None)"

section \<open>Notions of the specification\<close>

text \<open>
  The invariant of section 3 of the specification, in its words: \<open>isSold = true\<close> implies
  that the buyer is set, \<open>isSold = false\<close> implies that the buyer is unset. \<open>repo_inv\<close>
  says it of every row of the book table. \<open>table_after repo r\<close> is the book table after
  an operation with outcome \<open>r\<close> that started from \<open>repo\<close>.
\<close>

definition book_inv :: "Book \<Rightarrow> bool" where
  "book_inv b = ((isSold b \<longrightarrow> buyer b \<noteq> None) \<and> (\<not> isSold b \<longrightarrow> buyer b = None))"

definition repo_inv :: "Book list \<Rightarrow> bool" where
  "repo_inv repo = list_all book_inv repo"

definition table_after :: "'t \<Rightarrow> error + ('a \<times> 't) \<Rightarrow> 't" where
  "table_after repo r = (case r of Inl e \<Rightarrow> repo | Inr (x, repo') \<Rightarrow> repo')"




text \<open>Reading a JSON body: the value of a property of an object.\<close>

fun field :: "string \<Rightarrow> json \<Rightarrow> json option" where
  "field k (JObj kvs) = map_of kvs k"
| "field k j = None"

subsection \<open>Sample data\<close>

definition ana_id :: string where
  "ana_id = ''a0000000-0000-4000-8000-000000000001''"

definition hobbit_id :: string where
  "hobbit_id = ''b0000000-0000-4000-8000-000000000001''"

definition emma_id :: string where
  "emma_id = ''b0000000-0000-4000-8000-000000000002''"

definition ana :: User where
  "ana = \<lparr>user_id = ana_id, email = ''a@b.com'', name = ''Ana'', password = ''#12345678''\<rparr>"

definition hobbit :: Book where
  "hobbit = \<lparr>book_id = hobbit_id, title = ''The Hobbit'', author = ''Tolkien'', price = 10,
             isSold = False, buyer = None\<rparr>"

definition emma :: Book where
  "emma = \<lparr>book_id = emma_id, title = ''Emma'', author = ''Austen'', price = 7,
           isSold = True, buyer = Some ana\<rparr>"

text \<open>A stand-in for bcrypt: the hash is the plain text behind a marker.\<close>

definition toy_hash :: "string \<Rightarrow> nat \<Rightarrow> string" where
  "toy_hash p cost = ''#'' @ p"

definition toy_compare :: "string \<Rightarrow> string \<Rightarrow> bool" where
  "toy_compare p h = (h = ''#'' @ p)"

text \<open>
  A stand-in for HMAC-SHA256 and the serialisation of the token: the token names the key
  and the email it was issued for.
\<close>

definition toy_hs256 :: "json \<Rightarrow> string \<Rightarrow> string" where
  "toy_hs256 claims key =
     (case field ''user'' claims of
        Some j \<Rightarrow> (case field ''email'' j of
                     Some (JStr e) \<Rightarrow> ''jwt:'' @ e @ '':'' @ key
                   | _ \<Rightarrow> ''jwt::'' @ key)
      | None \<Rightarrow> ''jwt::'' @ key)"


section \<open>Facts about the sample data\<close>

lemma uuid_in_ana: "pg_uuid_in ana_id = Some ana_id"
  by code_simp

lemma uuid_in_hobbit: "pg_uuid_in hobbit_id = Some hobbit_id"
  by code_simp

lemma uuid_in_emma: "pg_uuid_in emma_id = Some emma_id"
  by code_simp

lemma uuid_in_nope: "pg_uuid_in ''nope'' = None"
  by code_simp

lemma uuid_in_spelling: "pg_uuid_in ''{B0000000000040008000-000000000001}'' = Some hobbit_id"
  by code_simp

lemma timespan_10m: "timespan ''10m'' = Some 600"
  by code_simp

section \<open>Facts about the repository\<close>

lemma repo_findOne_Some_set: "repo_findOne wh rows = Some r \<Longrightarrow> r \<in> set rows \<and> wh r"
  by (auto simp add: repo_findOne_def find_Some_iff)

lemma repo_findOne_None_iff: "(repo_findOne wh rows = None) = (\<forall>r\<in>set rows. \<not> wh r)"
  by (auto simp add: repo_findOne_def find_None_iff)

lemma repo_findOneById_Some_set:
  "repo_findOneById uuid_in key i rows = Inr (Some r) \<Longrightarrow> r \<in> set rows \<and> uuid_in i = Some (key r)"
  by (auto simp add: repo_findOneById_def split: option.splits dest: repo_findOne_Some_set)

lemma repo_save_list_all:
  "P e \<Longrightarrow> list_all P rows \<Longrightarrow> list_all P (repo_save key e rows)"
  by (auto simp add: repo_save_def list_all_iff)

lemma repo_save_member: "e \<in> set (repo_save key e rows)"
  by (auto simp add: repo_save_def)

lemma find_hobbit: "findBookById pg_uuid_in hobbit_id [hobbit, emma] = Inr (Some hobbit)"
  by (simp add: findBookById_def repo_findOneById_def repo_findOne_def uuid_in_hobbit hobbit_def)

lemma find_hobbit_other_spelling:
  "findBookById pg_uuid_in ''{B0000000000040008000-000000000001}'' [hobbit, emma] =
     Inr (Some hobbit)"
  unfolding findBookById_def repo_findOneById_def uuid_in_spelling
  by (simp add: repo_findOne_def hobbit_def)

lemma find_emma: "findBookById pg_uuid_in emma_id [hobbit, emma] = Inr (Some emma)"
  unfolding findBookById_def repo_findOneById_def uuid_in_emma
  by (simp add: repo_findOne_def hobbit_def emma_def hobbit_id_def emma_id_def)

lemma find_ana: "findUserById pg_uuid_in ana_id [ana] = Inr (Some ana)"
  by (simp add: findUserById_def repo_findOneById_def repo_findOne_def uuid_in_ana ana_def)

lemma save_sold_hobbit:
  "repo_save book_id (hobbit\<lparr>isSold := True, buyer := Some ana\<rparr>) [hobbit, emma] =
     [hobbit\<lparr>isSold := True, buyer := Some ana\<rparr>, emma]"
  by (simp add: repo_save_def hobbit_def emma_def hobbit_id_def emma_id_def)

section \<open>Purchase\<close>

lemma markBookAsSold_found:
  "findBookById uuid_in bookId repo = Inr (Some b) \<Longrightarrow>
   findUserById uuid_in userId users = Inr (Some u) \<Longrightarrow>
   markBookAsSold uuid_in bookId userId users repo =
     Inr (Some (b\<lparr>isSold := True, buyer := Some u\<rparr>),
          repo_save book_id (b\<lparr>isSold := True, buyer := Some u\<rparr>) repo)"
  by (simp add: markBookAsSold_def findUserById_def Let_def)

text \<open>
  C1. For a book that exists and is not sold, and a user id that resolves to a user,
  \<open>buyBook\<close> returns exactly "El libro <title> ha sido comprado por el usuario con ID
  <userId>.", and the endpoint answers 200 with that string as \<open>message\<close>; the book is
  stored as sold to that user.
\<close>

theorem buyBook_available_confirmation:
  assumes "findBookById uuid_in bookId repo = Inr (Some b)" and "\<not> isSold b"
    and "findUserById uuid_in userId users = Inr (Some u)"
  shows "buyBook uuid_in userId bookId users repo =
           Inr (Some (''El libro '' @ title b @ '' ha sido comprado por el usuario con ID ''
                      @ userId @ ''.''),
                repo_save book_id (b\<lparr>isSold := True, buyer := Some u\<rparr>) repo)
       \<and> BooksController_buy uuid_in bookId userId users repo =
           (\<lparr>status = 200,
             body = Some (JObj [(''message'',
               JStr (''El libro '' @ title b @ '' ha sido comprado por el usuario con ID ''
                     @ userId @ ''.''))])\<rparr>,
            repo_save book_id (b\<lparr>isSold := True, buyer := Some u\<rparr>) repo)"
  using assms
  by (simp add: buyBook_def BooksController_buy_def markBookAsSold_found confirmation_def
      message_def)

theorem buyBook_available_confirmation_witness:
  "findBookById pg_uuid_in hobbit_id [hobbit, emma] = Inr (Some hobbit) \<and> \<not> isSold hobbit
   \<and> findUserById pg_uuid_in ana_id [ana] = Inr (Some ana)
   \<and> buyBook pg_uuid_in ana_id hobbit_id [ana] [hobbit, emma] =
       Inr (Some (''El libro The Hobbit ha sido comprado por el usuario con ID '' @ ana_id @ ''.''),
            [hobbit\<lparr>isSold := True, buyer := Some ana\<rparr>, emma])
   \<and> BooksController_buy pg_uuid_in hobbit_id ana_id [ana] [hobbit, emma] =
       (\<lparr>status = 200,
         body = Some (JObj [(''message'',
           JStr (''El libro The Hobbit ha sido comprado por el usuario con ID '' @ ana_id @ ''.''))])\<rparr>,
        [hobbit\<lparr>isSold := True, buyer := Some ana\<rparr>, emma])"
proof -
  have s: "\<not> isSold hobbit"
    by (simp add: hobbit_def)
  have t: "title hobbit = ''The Hobbit''"
    by (simp add: hobbit_def)
  show ?thesis
    using find_hobbit s find_ana buyBook_available_confirmation [OF find_hobbit s find_ana]
    by (simp add: t save_sold_hobbit)
qed





section \<open>The sale invariant\<close>

lemma findBookById_inv:
  "repo_inv repo \<Longrightarrow> findBookById uuid_in i repo = Inr (Some b) \<Longrightarrow> book_inv b"
  by (auto simp add: repo_inv_def findBookById_def list_all_iff dest: repo_findOneById_Some_set)

lemma addBook_inv: "repo_inv repo \<Longrightarrow> repo_inv (snd (addBook dto newId repo))"
  by (simp add: repo_inv_def addBook_def repo_insert_def book_inv_def Let_def)

lemma markBookAsSold_inv:
  "repo_inv repo \<Longrightarrow> repo_inv (table_after repo (markBookAsSold uuid_in bookId userId users repo))"
  unfolding repo_inv_def markBookAsSold_def table_after_def
  by (auto simp add: Let_def book_inv_def intro!: repo_save_list_all
      split: sum.splits option.splits)

lemma buyBook_table:
  "table_after repo (buyBook uuid_in userId bookId users repo) = repo \<or>
   table_after repo (buyBook uuid_in userId bookId users repo) =
     table_after repo (markBookAsSold uuid_in bookId userId users repo)"
  by (auto simp add: buyBook_def table_after_def split: sum.splits option.splits prod.splits)

lemma buyBook_inv:
  "repo_inv repo \<Longrightarrow> repo_inv (table_after repo (buyBook uuid_in userId bookId users repo))"
  using buyBook_table [of repo uuid_in userId bookId users]
    markBookAsSold_inv [of repo uuid_in bookId userId users]
  by auto

lemma updateBook_inv:
  assumes "repo_inv repo"
    and "\<forall>b s. findBookById uuid_in i repo = Inr (Some b) \<and> ub_isSold dto = Some s \<longrightarrow> s = isSold b"
  shows "repo_inv (table_after repo (updateBook uuid_in i dto repo))"
proof (cases "findBookById uuid_in i repo")
  case (Inl e)
  then show ?thesis using assms(1) by (simp add: updateBook_def table_after_def)
next
  case (Inr found)
  show ?thesis
  proof (cases found)
    case None
    then show ?thesis using Inr assms(1) by (simp add: updateBook_def table_after_def)
  next
    case (Some b)
    then have f: "findBookById uuid_in i repo = Inr (Some b)" using Inr by simp
    then have "book_inv b" using assms(1) findBookById_inv by blast
    then have "book_inv (assign b dto)"
      using assms(2) f by (cases "ub_isSold dto") (auto simp add: book_inv_def assign_def)
    then show ?thesis using f assms(1)
      by (simp add: updateBook_def Let_def repo_inv_def repo_save_list_all table_after_def)
  qed
qed

lemma updateBook_breaks:
  assumes "repo_inv repo" and "findBookById uuid_in i repo = Inr (Some b)"
    and "ub_isSold dto = Some s" and "s \<noteq> isSold b"
  shows "\<not> repo_inv (table_after repo (updateBook uuid_in i dto repo))"
proof -
  have "book_inv b" using assms(1,2) findBookById_inv by blast
  then have "\<not> book_inv (assign b dto)"
    using assms(3,4) by (auto simp add: book_inv_def assign_def)
  moreover have "assign b dto \<in> set (table_after repo (updateBook uuid_in i dto repo))"
    using assms(2) by (simp add: updateBook_def Let_def repo_save_member table_after_def)
  ultimately show ?thesis by (auto simp add: repo_inv_def list_all_iff)
qed

text \<open>
  C3, as stated, fails: \<open>updateBook\<close> with the payload \<open>{ isSold: true }\<close> on an unsold
  book stores a book that is sold and has no buyer.
\<close>

theorem updateBook_invariant_counterexample:
  "repo_inv [hobbit]
   \<and> \<not> repo_inv (table_after [hobbit] (updateBook pg_uuid_in hobbit_id
         \<lparr>ub_title = None, ub_author = None, ub_price = None, ub_isSold = Some True\<rparr>
         [hobbit]))"
  unfolding updateBook_def findBookById_def repo_findOneById_def uuid_in_hobbit
  by (simp add: repo_inv_def book_inv_def hobbit_def repo_findOne_def repo_save_def assign_def
      Let_def table_after_def)

text \<open>
  C3, amended. When every stored book satisfies the invariant, it still does after
  \<open>addBook\<close>, after \<open>markBookAsSold\<close> and after \<open>buyBook\<close>; after \<open>updateBook\<close> it does
  when the payload has no \<open>isSold\<close>, or the \<open>isSold\<close> the book already has, or the book
  is missing, and it does not when the payload changes the \<open>isSold\<close> of a stored book.
\<close>

theorem sale_invariant_preserved:
  assumes "repo_inv repo"
  shows "repo_inv (snd (addBook cdto newId repo))
       \<and> repo_inv (table_after repo (markBookAsSold uuid_in bookId userId users repo))
       \<and> repo_inv (table_after repo (buyBook uuid_in userId bookId users repo))
       \<and> ((\<forall>b s. findBookById uuid_in i repo = Inr (Some b) \<and> ub_isSold dto = Some s
                   \<longrightarrow> s = isSold b)
            \<longrightarrow> repo_inv (table_after repo (updateBook uuid_in i dto repo)))
       \<and> ((\<exists>b s. findBookById uuid_in i repo = Inr (Some b) \<and> ub_isSold dto = Some s
                   \<and> s \<noteq> isSold b)
            \<longrightarrow> \<not> repo_inv (table_after repo (updateBook uuid_in i dto repo)))"
proof (intro conjI impI)
  show "repo_inv (snd (addBook cdto newId repo))"
    using assms by (rule addBook_inv)
  show "repo_inv (table_after repo (markBookAsSold uuid_in bookId userId users repo))"
    using assms by (rule markBookAsSold_inv)
  show "repo_inv (table_after repo (buyBook uuid_in userId bookId users repo))"
    using assms by (rule buyBook_inv)
next
  assume "\<forall>b s. findBookById uuid_in i repo = Inr (Some b) \<and> ub_isSold dto = Some s
                   \<longrightarrow> s = isSold b"
  with assms show "repo_inv (table_after repo (updateBook uuid_in i dto repo))"
    by (rule updateBook_inv)
next
  assume "\<exists>b s. findBookById uuid_in i repo = Inr (Some b) \<and> ub_isSold dto = Some s
                   \<and> s \<noteq> isSold b"
  then obtain b s where "findBookById uuid_in i repo = Inr (Some b)"
    and "ub_isSold dto = Some s" and "s \<noteq> isSold b"
    by blast
  with assms show "\<not> repo_inv (table_after repo (updateBook uuid_in i dto repo))"
    by (rule updateBook_breaks)
qed

theorem sale_invariant_preserved_witness:
  "repo_inv [hobbit, emma]
   \<and> repo_inv (snd (addBook \<lparr>cb_title = ''Dune'', cb_author = ''Herbert'', cb_price = 9,
                             cb_isSold = Some True\<rparr> ''c0000000-0000-4000-8000-000000000003''
                            [hobbit, emma]))
   \<and> repo_inv (table_after [hobbit, emma]
        (markBookAsSold pg_uuid_in hobbit_id ana_id [ana] [hobbit, emma]))
   \<and> repo_inv (table_after [hobbit, emma]
        (buyBook pg_uuid_in ana_id hobbit_id [ana] [hobbit, emma]))
   \<and> repo_inv (table_after [hobbit, emma] (updateBook pg_uuid_in hobbit_id
        \<lparr>ub_title = Some ''Hobbit'', ub_author = None, ub_price = None, ub_isSold = Some False\<rparr>
        [hobbit, emma]))
   \<and> \<not> repo_inv (table_after [hobbit, emma] (updateBook pg_uuid_in emma_id
        \<lparr>ub_title = None, ub_author = None, ub_price = None, ub_isSold = Some False\<rparr>
        [hobbit, emma]))"
proof -
  have h: "repo_inv [hobbit, emma]"
    by (simp add: repo_inv_def book_inv_def hobbit_def emma_def)
  have s1: "\<not> isSold hobbit" by (simp add: hobbit_def)
  have s2: "isSold emma" by (simp add: emma_def)
  note p = sale_invariant_preserved [OF h, of
      "\<lparr>cb_title = ''Dune'', cb_author = ''Herbert'', cb_price = 9, cb_isSold = Some True\<rparr>"
      "''c0000000-0000-4000-8000-000000000003''" pg_uuid_in hobbit_id ana_id "[ana]"]
  note keep = p [of hobbit_id
      "\<lparr>ub_title = Some ''Hobbit'', ub_author = None, ub_price = None, ub_isSold = Some False\<rparr>"]
  note break = p [of emma_id
      "\<lparr>ub_title = None, ub_author = None, ub_price = None, ub_isSold = Some False\<rparr>"]
  have 1: "repo_inv (table_after [hobbit, emma] (updateBook pg_uuid_in hobbit_id
        \<lparr>ub_title = Some ''Hobbit'', ub_author = None, ub_price = None, ub_isSold = Some False\<rparr>
        [hobbit, emma]))"
    using keep by (simp add: find_hobbit s1)
  have 2: "\<not> repo_inv (table_after [hobbit, emma] (updateBook pg_uuid_in emma_id
        \<lparr>ub_title = None, ub_author = None, ub_price = None, ub_isSold = Some False\<rparr>
        [hobbit, emma]))"
    using break by (simp add: find_emma s2)
  show ?thesis
    using h keep 1 2 by blast
qed

section \<open>Creating a book\<close>

text \<open>
  C4. Whatever the payload, also one with \<open>isSold: true\<close>, \<open>addBook\<close> appends to the book
  table one record, built from the payload's title, author and price, whose \<open>isSold\<close> is
  false; that record is what it returns.
\<close>

theorem addBook_isSold_false:
  "\<not> isSold (fst (addBook dto newId repo))
   \<and> fst (addBook dto newId repo) =
       \<lparr>book_id = newId, title = cb_title dto, author = cb_author dto, price = cb_price dto,
        isSold = False, buyer = None\<rparr>
   \<and> snd (addBook dto newId repo) = repo @ [fst (addBook dto newId repo)]"
  by (simp add: addBook_def repo_insert_def Let_def)

theorem addBook_isSold_false_witness:
  "addBook \<lparr>cb_title = ''Dune'', cb_author = ''Herbert'', cb_price = 9, cb_isSold = Some True\<rparr>
           ''c0000000-0000-4000-8000-000000000003'' [hobbit]
   = (\<lparr>book_id = ''c0000000-0000-4000-8000-000000000003'', title = ''Dune'',
       author = ''Herbert'', price = 9, isSold = False, buyer = None\<rparr>,
      [hobbit, \<lparr>book_id = ''c0000000-0000-4000-8000-000000000003'', title = ''Dune'',
                author = ''Herbert'', price = 9, isSold = False, buyer = None\<rparr>])"
  using addBook_isSold_false
    [of "\<lparr>cb_title = ''Dune'', cb_author = ''Herbert'', cb_price = 9, cb_isSold = Some True\<rparr>"
        "''c0000000-0000-4000-8000-000000000003''" "[hobbit]"]
  by (simp add: prod_eq_iff)

section \<open>Lookup by author\<close>








section \<open>Signing up and logging in\<close>

text \<open>
  C6. When a user with the payload's email is stored, \<open>POST /users\<close> answers 400 with
  exactly the message "User already exists" and leaves the user table as it was: the
  lookup comes first and nothing is inserted.
\<close>

theorem create_duplicate_email:
  assumes "\<exists>u\<in>set repo. email u = cu_email dto"
  shows "UsersController_create bcrypt_hash newId dto repo =
           (\<lparr>status = 400, body = Some (JObj [(''message'', JStr ''User already exists'')])\<rparr>,
            repo)"
proof -
  have "findUsersByEmail (cu_email dto) repo \<noteq> None"
    using assms by (simp add: findUsersByEmail_def repo_findOne_None_iff)
  then show ?thesis
    by (auto simp add: UsersController_create_def message_def)
qed

theorem create_duplicate_email_witness:
  "(\<exists>u\<in>set [ana]. email u = ''a@b.com'')
   \<and> UsersController_create toy_hash ''a0000000-0000-4000-8000-000000000002''
        \<lparr>cu_name = ''Ana'', cu_email = ''a@b.com'', cu_password = ''12345678''\<rparr> [ana] =
       (\<lparr>status = 400, body = Some (JObj [(''message'', JStr ''User already exists'')])\<rparr>,
        [ana])"
proof -
  have h: "\<exists>u\<in>set [ana]. email u =
             cu_email \<lparr>cu_name = ''Ana'', cu_email = ''a@b.com'', cu_password = ''12345678''\<rparr>"
    by (simp add: ana_def)
  show ?thesis
    using h create_duplicate_email [OF h, of toy_hash "''a0000000-0000-4000-8000-000000000002''"]
    by simp
qed

lemma find_ana_by_email: "findUsersByEmail ''a@b.com'' [ana] = Some ana"
  by (simp add: findUsersByEmail_def repo_findOne_def ana_def)

lemma ana_password_matches: "toy_compare ''12345678'' (password ana)"
  by (simp add: toy_compare_def ana_def)

text \<open>
  C7, as stated, fails: with \<open>JWT_SECRET\<close> set to the empty string the signer has no key
  and throws, so a login of a stored user with the right password ends in the error
  leaving the handler, which the framework answers with 500, not in 200 with a token.
\<close>

theorem login_signing_fails_counterexample:
  "findUsersByEmail ''a@b.com'' [ana] = Some ana
   \<and> toy_compare ''12345678'' (password ana)
   \<and> UsersController_login toy_compare
        (JwtService_signAsync toy_hs256 0 (JwtModule_secret [''JWT_SECRET'' \<mapsto> '''']))
        [''JWT_SECRET'' \<mapsto> '''']
        \<lparr>login_email = ''a@b.com'', login_password = ''12345678''\<rparr> [ana] = Inl SigningError
   \<and> framework_status (UsersController_login toy_compare
        (JwtService_signAsync toy_hs256 0 (JwtModule_secret [''JWT_SECRET'' \<mapsto> '''']))
        [''JWT_SECRET'' \<mapsto> '''']
        \<lparr>login_email = ''a@b.com'', login_password = ''12345678''\<rparr> [ana]) = 500"
  by (simp add: find_ana_by_email ana_password_matches UsersController_login_def login_def
      JwtService_signAsync_def JwtModule_secret_def framework_status_def)

text \<open>
  C7, amended. \<open>POST /users/login\<close> answers 404 when no stored user has the email; 401
  with the message "Invalid credentials" when the user is found and the password does
  not match the stored hash. When the user is found and the password matches, it calls
  \<open>login\<close> with the user's email: it answers 200 with the body \<open>{token}\<close> holding the
  token that the signer returns for the payload \<open>{ user: { email } }\<close>, and when the
  signer throws, the error leaves the handler.
\<close>

theorem login_statuses:
  "((\<forall>u\<in>set repo. email u \<noteq> login_email dto) \<longrightarrow>
      UsersController_login bcrypt_compare signAsync env dto repo =
        Inr \<lparr>status = 404, body = Some (JObj [(''message'', JStr ''User not found'')])\<rparr>)
   \<and> (findUsersByEmail (login_email dto) repo = Some u
        \<and> \<not> bcrypt_compare (login_password dto) (password u) \<longrightarrow>
      UsersController_login bcrypt_compare signAsync env dto repo =
        Inr \<lparr>status = 401, body = Some (JObj [(''message'', JStr ''Invalid credentials'')])\<rparr>)
   \<and> (findUsersByEmail (login_email dto) repo = Some u
        \<and> bcrypt_compare (login_password dto) (password u) \<longrightarrow>
      UsersController_login bcrypt_compare signAsync env dto repo =
        (case login signAsync env (email u) of
           Inl e \<Rightarrow> Inl e
         | Inr token \<Rightarrow> Inr \<lparr>status = 200, body = Some token\<rparr>)
      \<and> (\<forall>t. signAsync (JObj [(''user'', JObj [(''email'', JStr (email u))])])
                        \<lparr>secret = env ''JWT_SECRET'', expiresIn = ''10m''\<rparr> = Inr t \<longrightarrow>
             UsersController_login bcrypt_compare signAsync env dto repo =
               Inr \<lparr>status = 200, body = Some (JObj [(''token'', JStr t)])\<rparr>)
      \<and> (\<forall>e. signAsync (JObj [(''user'', JObj [(''email'', JStr (email u))])])
                        \<lparr>secret = env ''JWT_SECRET'', expiresIn = ''10m''\<rparr> = Inl e \<longrightarrow>
             UsersController_login bcrypt_compare signAsync env dto repo = Inl e))"
proof -
  have "(\<forall>u\<in>set repo. email u \<noteq> login_email dto) \<Longrightarrow>
          findUsersByEmail (login_email dto) repo = None"
    by (simp add: findUsersByEmail_def repo_findOne_None_iff)
  then show ?thesis
    by (auto simp add: UsersController_login_def login_def message_def Let_def)
qed

theorem login_statuses_witness:
  "''x@y.com'' \<notin> set (map email [ana])
   \<and> UsersController_login toy_compare
        (JwtService_signAsync toy_hs256 0 (JwtModule_secret [''JWT_SECRET'' \<mapsto> ''s3cret'']))
        [''JWT_SECRET'' \<mapsto> ''s3cret'']
        \<lparr>login_email = ''x@y.com'', login_password = ''12345678''\<rparr> [ana] =
       Inr \<lparr>status = 404, body = Some (JObj [(''message'', JStr ''User not found'')])\<rparr>
   \<and> UsersController_login toy_compare
        (JwtService_signAsync toy_hs256 0 (JwtModule_secret [''JWT_SECRET'' \<mapsto> ''s3cret'']))
        [''JWT_SECRET'' \<mapsto> ''s3cret'']
        \<lparr>login_email = ''a@b.com'', login_password = ''wrong''\<rparr> [ana] =
       Inr \<lparr>status = 401, body = Some (JObj [(''message'', JStr ''Invalid credentials'')])\<rparr>
   \<and> UsersController_login toy_compare
        (JwtService_signAsync toy_hs256 0 (JwtModule_secret [''JWT_SECRET'' \<mapsto> ''s3cret'']))
        [''JWT_SECRET'' \<mapsto> ''s3cret'']
        \<lparr>login_email = ''a@b.com'', login_password = ''12345678''\<rparr> [ana] =
       Inr \<lparr>status = 200, body = Some (JObj [(''token'', JStr ''jwt:a@b.com:s3cret'')])\<rparr>"
proof -
  let ?env = "[''JWT_SECRET'' \<mapsto> ''s3cret'']"
  let ?sign = "JwtService_signAsync toy_hs256 0 (JwtModule_secret ?env)"
  have n: "\<forall>u\<in>set [ana]. email u \<noteq> ''x@y.com''"
    by (simp add: ana_def)
  have w: "\<not> toy_compare ''wrong'' (password ana)"
    by (simp add: toy_compare_def ana_def)
  have e: "email ana = ''a@b.com''"
    by (simp add: ana_def)
  have t: "?sign (JObj [(''user'', JObj [(''email'', JStr (email ana))])])
                 \<lparr>secret = ?env ''JWT_SECRET'', expiresIn = ''10m''\<rparr> = Inr ''jwt:a@b.com:s3cret''"
    by (simp add: JwtService_signAsync_def JwtModule_secret_def timespan_10m toy_hs256_def e)
  note miss = login_statuses [of "[ana]"
      "\<lparr>login_email = ''x@y.com'', login_password = ''12345678''\<rparr>" toy_compare ?sign ?env ana]
  note wrong = login_statuses [of "[ana]"
      "\<lparr>login_email = ''a@b.com'', login_password = ''wrong''\<rparr>" toy_compare ?sign ?env ana]
  note right = login_statuses [of "[ana]"
      "\<lparr>login_email = ''a@b.com'', login_password = ''12345678''\<rparr>" toy_compare ?sign ?env ana]
  have 1: "UsersController_login toy_compare ?sign ?env
        \<lparr>login_email = ''x@y.com'', login_password = ''12345678''\<rparr> [ana] =
       Inr \<lparr>status = 404, body = Some (JObj [(''message'', JStr ''User not found'')])\<rparr>"
    using miss n by simp
  have 2: "UsersController_login toy_compare ?sign ?env
        \<lparr>login_email = ''a@b.com'', login_password = ''wrong''\<rparr> [ana] =
       Inr \<lparr>status = 401, body = Some (JObj [(''message'', JStr ''Invalid credentials'')])\<rparr>"
    using wrong find_ana_by_email w by simp
  have 3: "UsersController_login toy_compare ?sign ?env
        \<lparr>login_email = ''a@b.com'', login_password = ''12345678''\<rparr> [ana] =
       Inr \<lparr>status = 200, body = Some (JObj [(''token'', JStr ''jwt:a@b.com:s3cret'')])\<rparr>"
    using right find_ana_by_email ana_password_matches t by (simp add: login_def)
  have 0: "''x@y.com'' \<notin> set (map email [ana])"
    by (simp add: ana_def)
  show ?thesis
    using 0 1 2 3 by blast
qed

section \<open>Deleting\<close>

lemma affected_iff: "(length (filter (\<lambda>r. key r = c) rows) \<noteq> 0) = (c \<in> set (map key rows))"
  by (auto simp add: filter_empty_conv)

lemma filter_absent: "c \<notin> set (map key rows) \<Longrightarrow> filter (\<lambda>r. key r \<noteq> c) rows = rows"
  by (auto simp add: filter_id_conv)

lemma absent_after: "c \<notin> set (map key (filter (\<lambda>r. key r \<noteq> c) rows))"
  by auto

lemma removeUser_ok:
  assumes "i \<noteq> []" and "uuid_in i = Some c"
    and "\<not> (c \<in> set (map user_id users) \<and> references_user books c)"
  shows "removeUser uuid_in books i users =
           Inr (c \<in> set (map user_id users), filter (\<lambda>u. user_id u \<noteq> c) users)"
  using assms affected_iff [of user_id c users]
  by (auto simp add: removeUser_def repo_delete_def)

lemma removeUser_refused:
  assumes "i \<noteq> []" and "uuid_in i = Some c"
    and "c \<in> set (map user_id users)" and "references_user books c"
  shows "removeUser uuid_in books i users = Inl ForeignKeyViolation"
  using assms by (simp add: removeUser_def repo_delete_def)

lemma removeBook_ok:
  assumes "i \<noteq> []" and "uuid_in i = Some c"
  shows "removeBook uuid_in i bks =
           Inr (c \<in> set (map book_id bks), filter (\<lambda>b. book_id b \<noteq> c) bks)"
  using assms affected_iff [of book_id c bks]
  by (auto simp add: removeBook_def repo_delete_def)

lemma remove_throws:
  "removeUser uuid_in books [] users = Inl EmptyCriteria"
  "removeBook uuid_in [] bks = Inl EmptyCriteria"
  "i \<noteq> [] \<Longrightarrow> uuid_in i = None \<Longrightarrow> removeUser uuid_in books i users = Inl InvalidUuid"
  "i \<noteq> [] \<Longrightarrow> uuid_in i = None \<Longrightarrow> removeBook uuid_in i bks = Inl InvalidUuid"
  by (simp_all add: removeUser_def removeBook_def repo_delete_def)

text \<open>
  C8, as stated, fails: the user Ana is stored, but she is the buyer of a book, so the
  database refuses the delete. \<open>removeUser\<close> throws instead of returning true, the user
  stays, and the error leaves the handler, which the framework answers with 500.
\<close>

theorem removeUser_buyer_counterexample:
  "ana_id \<in> set (map user_id [ana])
   \<and> removeUser pg_uuid_in [hobbit, emma] ana_id [ana] = Inl ForeignKeyViolation
   \<and> UsersController_remove pg_uuid_in [hobbit, emma] ana_id [ana] =
       (Inl ForeignKeyViolation, [ana])
   \<and> framework_status (fst (UsersController_remove pg_uuid_in [hobbit, emma] ana_id [ana])) = 500"
proof -
  have n: "ana_id \<noteq> []"
    by (simp add: ana_id_def)
  have m: "ana_id \<in> set (map user_id [ana])"
    by (simp add: ana_def)
  have r: "references_user [hobbit, emma] ana_id"
    by (simp add: references_user_def hobbit_def emma_def ana_def)
  have "removeUser pg_uuid_in [hobbit, emma] ana_id [ana] = Inl ForeignKeyViolation"
    using n uuid_in_ana m r by (rule removeUser_refused)
  then show ?thesis
    using m by (simp add: UsersController_remove_def framework_status_def)
qed

text \<open>
  C8, amended. For a well-formed id, deleting is one-shot for books, and for users that
  no book has as its buyer: when a record with the id is stored, the delete returns
  true, leaves exactly the records with another id, and a second delete of the same id
  returns false; over HTTP that is 204, then 404. A user that a book has as its buyer is
  not deleted: the delete throws and the error leaves the handler. When no record has
  the id, the delete returns false (404) and the table is unchanged. An empty or
  malformed id makes the delete throw; the error leaves the handler and the table is
  unchanged.
\<close>

theorem delete_one_shot:
  "(i \<noteq> [] \<and> uuid_in i = Some c \<longrightarrow>
      (c \<in> set (map user_id users) \<and> \<not> references_user books c \<longrightarrow>
         removeUser uuid_in books i users = Inr (True, filter (\<lambda>u. user_id u \<noteq> c) users)
         \<and> removeUser uuid_in books i (filter (\<lambda>u. user_id u \<noteq> c) users) =
             Inr (False, filter (\<lambda>u. user_id u \<noteq> c) users)
         \<and> UsersController_remove uuid_in books i users =
             (Inr \<lparr>status = 204, body = None\<rparr>, filter (\<lambda>u. user_id u \<noteq> c) users)
         \<and> UsersController_remove uuid_in books i (filter (\<lambda>u. user_id u \<noteq> c) users) =
             (Inr \<lparr>status = 404, body = Some (JObj [(''message'', JStr ''User not found'')])\<rparr>,
              filter (\<lambda>u. user_id u \<noteq> c) users))
      \<and> (c \<in> set (map user_id users) \<and> references_user books c \<longrightarrow>
         removeUser uuid_in books i users = Inl ForeignKeyViolation
         \<and> UsersController_remove uuid_in books i users = (Inl ForeignKeyViolation, users))
      \<and> (c \<notin> set (map user_id users) \<longrightarrow>
         removeUser uuid_in books i users = Inr (False, users)
         \<and> UsersController_remove uuid_in books i users =
             (Inr \<lparr>status = 404, body = Some (JObj [(''message'', JStr ''User not found'')])\<rparr>,
              users))
      \<and> (c \<in> set (map book_id bks) \<longrightarrow>
         removeBook uuid_in i bks = Inr (True, filter (\<lambda>b. book_id b \<noteq> c) bks)
         \<and> removeBook uuid_in i (filter (\<lambda>b. book_id b \<noteq> c) bks) =
             Inr (False, filter (\<lambda>b. book_id b \<noteq> c) bks)
         \<and> BooksController_remove uuid_in i bks =
             (Inr \<lparr>status = 204, body = None\<rparr>, filter (\<lambda>b. book_id b \<noteq> c) bks)
         \<and> BooksController_remove uuid_in i (filter (\<lambda>b. book_id b \<noteq> c) bks) =
             (Inr \<lparr>status = 404, body = Some (JObj [(''message'', JStr ''Book not found'')])\<rparr>,
              filter (\<lambda>b. book_id b \<noteq> c) bks))
      \<and> (c \<notin> set (map book_id bks) \<longrightarrow>
         removeBook uuid_in i bks = Inr (False, bks)
         \<and> BooksController_remove uuid_in i bks =
             (Inr \<lparr>status = 404, body = Some (JObj [(''message'', JStr ''Book not found'')])\<rparr>,
              bks)))
   \<and> (i = [] \<longrightarrow>
        UsersController_remove uuid_in books i users = (Inl EmptyCriteria, users)
        \<and> BooksController_remove uuid_in i bks = (Inl EmptyCriteria, bks))
   \<and> (i \<noteq> [] \<and> uuid_in i = None \<longrightarrow>
        UsersController_remove uuid_in books i users = (Inl InvalidUuid, users)
        \<and> BooksController_remove uuid_in i bks = (Inl InvalidUuid, bks))"
proof (intro conjI impI)
  assume w: "i \<noteq> [] \<and> uuid_in i = Some c"
    and h: "c \<in> set (map user_id users) \<and> \<not> references_user books c"
  have 1: "removeUser uuid_in books i users = Inr (True, filter (\<lambda>u. user_id u \<noteq> c) users)"
    using w h by (simp add: removeUser_ok)
  have 2: "removeUser uuid_in books i (filter (\<lambda>u. user_id u \<noteq> c) users) =
             Inr (False, filter (\<lambda>u. user_id u \<noteq> c) users)"
    using w absent_after [of c user_id users] by (simp add: removeUser_ok)
  show "removeUser uuid_in books i users = Inr (True, filter (\<lambda>u. user_id u \<noteq> c) users)"
    by (rule 1)
  show "removeUser uuid_in books i (filter (\<lambda>u. user_id u \<noteq> c) users) =
             Inr (False, filter (\<lambda>u. user_id u \<noteq> c) users)"
    by (rule 2)
  show "UsersController_remove uuid_in books i users =
             (Inr \<lparr>status = 204, body = None\<rparr>, filter (\<lambda>u. user_id u \<noteq> c) users)"
    by (simp add: UsersController_remove_def 1)
  show "UsersController_remove uuid_in books i (filter (\<lambda>u. user_id u \<noteq> c) users) =
             (Inr \<lparr>status = 404, body = Some (JObj [(''message'', JStr ''User not found'')])\<rparr>,
              filter (\<lambda>u. user_id u \<noteq> c) users)"
    by (simp add: UsersController_remove_def 2 message_def)
next
  assume w: "i \<noteq> [] \<and> uuid_in i = Some c"
    and h: "c \<in> set (map user_id users) \<and> references_user books c"
  then have 1: "removeUser uuid_in books i users = Inl ForeignKeyViolation"
    by (simp add: removeUser_refused)
  show "removeUser uuid_in books i users = Inl ForeignKeyViolation"
    by (rule 1)
  show "UsersController_remove uuid_in books i users = (Inl ForeignKeyViolation, users)"
    by (simp add: UsersController_remove_def 1)
next
  assume w: "i \<noteq> [] \<and> uuid_in i = Some c" and h: "c \<notin> set (map user_id users)"
  then have 1: "removeUser uuid_in books i users = Inr (False, users)"
    using filter_absent [of c user_id users] by (simp add: removeUser_ok)
  show "removeUser uuid_in books i users = Inr (False, users)"
    by (rule 1)
  show "UsersController_remove uuid_in books i users =
             (Inr \<lparr>status = 404, body = Some (JObj [(''message'', JStr ''User not found'')])\<rparr>,
              users)"
    by (simp add: UsersController_remove_def 1 message_def)
next
  assume w: "i \<noteq> [] \<and> uuid_in i = Some c" and h: "c \<in> set (map book_id bks)"
  have 1: "removeBook uuid_in i bks = Inr (True, filter (\<lambda>b. book_id b \<noteq> c) bks)"
    using w h by (simp add: removeBook_ok)
  have 2: "removeBook uuid_in i (filter (\<lambda>b. book_id b \<noteq> c) bks) =
             Inr (False, filter (\<lambda>b. book_id b \<noteq> c) bks)"
    using w absent_after [of c book_id bks] by (simp add: removeBook_ok)
  show "removeBook uuid_in i bks = Inr (True, filter (\<lambda>b. book_id b \<noteq> c) bks)"
    by (rule 1)
  show "removeBook uuid_in i (filter (\<lambda>b. book_id b \<noteq> c) bks) =
             Inr (False, filter (\<lambda>b. book_id b \<noteq> c) bks)"
    by (rule 2)
  show "BooksController_remove uuid_in i bks =
             (Inr \<lparr>status = 204, body = None\<rparr>, filter (\<lambda>b. book_id b \<noteq> c) bks)"
    by (simp add: BooksController_remove_def 1)
  show "BooksController_remove uuid_in i (filter (\<lambda>b. book_id b \<noteq> c) bks) =
             (Inr \<lparr>status = 404, body = Some (JObj [(''message'', JStr ''Book not found'')])\<rparr>,
              filter (\<lambda>b. book_id b \<noteq> c) bks)"
    by (simp add: BooksController_remove_def 2 message_def)
next
  assume w: "i \<noteq> [] \<and> uuid_in i = Some c" and h: "c \<notin> set (map book_id bks)"
  then have 1: "removeBook uuid_in i bks = Inr (False, bks)"
    using filter_absent [of c book_id bks] by (simp add: removeBook_ok)
  show "removeBook uuid_in i bks = Inr (False, bks)"
    by (rule 1)
  show "BooksController_remove uuid_in i bks =
             (Inr \<lparr>status = 404, body = Some (JObj [(''message'', JStr ''Book not found'')])\<rparr>,
              bks)"
    by (simp add: BooksController_remove_def 1 message_def)
next
  assume "i = []"
  then show "UsersController_remove uuid_in books i users = (Inl EmptyCriteria, users)"
    and "BooksController_remove uuid_in i bks = (Inl EmptyCriteria, bks)"
    by (simp_all add: UsersController_remove_def BooksController_remove_def remove_throws)
next
  assume "i \<noteq> [] \<and> uuid_in i = None"
  then show "UsersController_remove uuid_in books i users = (Inl InvalidUuid, users)"
    and "BooksController_remove uuid_in i bks = (Inl InvalidUuid, bks)"
    by (simp_all add: UsersController_remove_def BooksController_remove_def remove_throws)
qed

theorem delete_one_shot_witness:
  "emma_id \<noteq> [] \<and> pg_uuid_in emma_id = Some emma_id
   \<and> emma_id \<in> set (map book_id [hobbit, emma])
   \<and> removeBook pg_uuid_in emma_id [hobbit, emma] = Inr (True, [hobbit])
   \<and> removeBook pg_uuid_in emma_id [hobbit] = Inr (False, [hobbit])
   \<and> BooksController_remove pg_uuid_in emma_id [hobbit, emma] =
       (Inr \<lparr>status = 204, body = None\<rparr>, [hobbit])
   \<and> BooksController_remove pg_uuid_in emma_id [hobbit] =
       (Inr \<lparr>status = 404, body = Some (JObj [(''message'', JStr ''Book not found'')])\<rparr>,
        [hobbit])
   \<and> ana_id \<noteq> [] \<and> pg_uuid_in ana_id = Some ana_id
   \<and> ana_id \<in> set (map user_id [ana]) \<and> \<not> references_user [hobbit] ana_id
   \<and> removeUser pg_uuid_in [hobbit] ana_id [ana] = Inr (True, [])
   \<and> removeUser pg_uuid_in [hobbit] ana_id [] = Inr (False, [])
   \<and> UsersController_remove pg_uuid_in [hobbit] ana_id [ana] =
       (Inr \<lparr>status = 204, body = None\<rparr>, [])
   \<and> UsersController_remove pg_uuid_in [hobbit] ana_id [] =
       (Inr \<lparr>status = 404, body = Some (JObj [(''message'', JStr ''User not found'')])\<rparr>, [])
   \<and> references_user [hobbit, emma] ana_id
   \<and> UsersController_remove pg_uuid_in [hobbit, emma] ana_id [ana] =
       (Inl ForeignKeyViolation, [ana])
   \<and> pg_uuid_in ''nope'' = None
   \<and> BooksController_remove pg_uuid_in ''nope'' [hobbit, emma] = (Inl InvalidUuid, [hobbit, emma])"
proof -
  have ne: "emma_id \<noteq> []" and na: "ana_id \<noteq> []" and nn: "''nope'' \<noteq> []"
    by (simp_all add: emma_id_def ana_id_def)
  have mb: "emma_id \<in> set (map book_id [hobbit, emma])"
    by (simp add: emma_def)
  have mu: "ana_id \<in> set (map user_id [ana])"
    by (simp add: ana_def)
  have free: "\<not> references_user [hobbit] ana_id"
    by (simp add: references_user_def hobbit_def)
  have held: "references_user [hobbit, emma] ana_id"
    by (simp add: references_user_def hobbit_def emma_def ana_def)
  have fb: "filter (\<lambda>b. book_id b \<noteq> emma_id) [hobbit, emma] = [hobbit]"
    by (simp add: hobbit_def emma_def hobbit_id_def emma_id_def)
  have fu: "filter (\<lambda>u. user_id u \<noteq> ana_id) [ana] = []"
    by (simp add: ana_def)
  note bk = delete_one_shot [of emma_id pg_uuid_in emma_id "[]" "[]" "[hobbit, emma]"]
  note us = delete_one_shot [of ana_id pg_uuid_in ana_id "[ana]" "[hobbit]" "[]"]
  note fk = delete_one_shot [of ana_id pg_uuid_in ana_id "[ana]" "[hobbit, emma]" "[]"]
  note bad = delete_one_shot [of "''nope''" pg_uuid_in "''nope''" "[]" "[]" "[hobbit, emma]"]
  have 1: "removeBook pg_uuid_in emma_id [hobbit, emma] = Inr (True, [hobbit])"
    and 2: "removeBook pg_uuid_in emma_id [hobbit] = Inr (False, [hobbit])"
    and 3: "BooksController_remove pg_uuid_in emma_id [hobbit, emma] =
       (Inr \<lparr>status = 204, body = None\<rparr>, [hobbit])"
    and 4: "BooksController_remove pg_uuid_in emma_id [hobbit] =
       (Inr \<lparr>status = 404, body = Some (JObj [(''message'', JStr ''Book not found'')])\<rparr>,
        [hobbit])"
    using bk ne uuid_in_emma mb unfolding fb by blast+
  have 5: "removeUser pg_uuid_in [hobbit] ana_id [ana] = Inr (True, [])"
    and 6: "removeUser pg_uuid_in [hobbit] ana_id [] = Inr (False, [])"
    and 7: "UsersController_remove pg_uuid_in [hobbit] ana_id [ana] =
       (Inr \<lparr>status = 204, body = None\<rparr>, [])"
    and 8: "UsersController_remove pg_uuid_in [hobbit] ana_id [] =
       (Inr \<lparr>status = 404, body = Some (JObj [(''message'', JStr ''User not found'')])\<rparr>, [])"
    using us na uuid_in_ana mu free unfolding fu by blast+
  have 9: "UsersController_remove pg_uuid_in [hobbit, emma] ana_id [ana] =
       (Inl ForeignKeyViolation, [ana])"
    using fk na uuid_in_ana mu held by blast
  have 10: "BooksController_remove pg_uuid_in ''nope'' [hobbit, emma] =
       (Inl InvalidUuid, [hobbit, emma])"
    using bad nn uuid_in_nope by blast
  show ?thesis
    using ne uuid_in_emma mb 1 2 3 4 na uuid_in_ana mu free 5 6 7 8 held 9 uuid_in_nope 10
    by blast
qed

section \<open>The token\<close>

lemma login_signed:
  "login (JwtService_signAsync hs256 now moduleSecret) env e =
     (let key = (case env ''JWT_SECRET'' of
                   Some s \<Rightarrow> if s \<noteq> [] then s else moduleSecret
                 | None \<Rightarrow> moduleSecret)
      in if key = [] then Inl SigningError
         else Inr (JObj [(''token'',
                JStr (hs256 (JObj [(''user'', JObj [(''email'', JStr e)]),
                                   (''iat'', JNum (of_nat now)),
                                   (''exp'', JNum (of_nat (now + 600)))])
                            key))]))"
  by (simp add: login_def JwtService_signAsync_def timespan_10m Let_def)

text \<open>
  C9, as stated, fails. With \<open>JWT_SECRET\<close> unset the token is signed with the literal
  \<open>'dev'\<close> of the module registration, which is no part of the process configuration;
  with \<open>JWT_SECRET\<close> set to the empty string the signer throws and no token is
  produced.
\<close>

theorem login_default_secret_counterexample:
  "login (JwtService_signAsync toy_hs256 0 (JwtModule_secret Map.empty)) Map.empty ''a@b.com'' =
     Inr (JObj [(''token'', JStr ''jwt:a@b.com:dev'')])
   \<and> login (JwtService_signAsync toy_hs256 0 (JwtModule_secret [''JWT_SECRET'' \<mapsto> '''']))
        [''JWT_SECRET'' \<mapsto> ''''] ''a@b.com'' = Inl SigningError"
  by (simp add: login_signed JwtModule_secret_def toy_hs256_def)

text \<open>
  C9, amended. For every email and clock, with the JWT service as the module registers
  it: when \<open>JWT_SECRET\<close> is set to a non-empty string, \<open>login\<close> returns \<open>{token}\<close> whose
  token is signed, with HMAC-SHA256 under that secret, over the claims \<open>user\<close>, the
  object \<open>{ email }\<close> holding the email, \<open>iat\<close>, the clock, and \<open>exp\<close>, 600 seconds after
  \<open>iat\<close>, which is ten minutes exactly; when \<open>JWT_SECRET\<close> is unset, the token is the
  same but signed under the key \<open>'dev'\<close>; when \<open>JWT_SECRET\<close> is the empty string, the
  signer throws and so does \<open>login\<close>.
\<close>

theorem login_token:
  "(env ''JWT_SECRET'' = Some s \<and> s \<noteq> [] \<longrightarrow>
      login (JwtService_signAsync hs256 now (JwtModule_secret env)) env e =
        Inr (JObj [(''token'',
          JStr (hs256 (JObj [(''user'', JObj [(''email'', JStr e)]),
                             (''iat'', JNum (of_nat now)),
                             (''exp'', JNum (of_nat (now + 600)))]) s))]))
   \<and> (env ''JWT_SECRET'' = None \<longrightarrow>
      login (JwtService_signAsync hs256 now (JwtModule_secret env)) env e =
        Inr (JObj [(''token'',
          JStr (hs256 (JObj [(''user'', JObj [(''email'', JStr e)]),
                             (''iat'', JNum (of_nat now)),
                             (''exp'', JNum (of_nat (now + 600)))]) ''dev''))]))
   \<and> (env ''JWT_SECRET'' = Some [] \<longrightarrow>
      login (JwtService_signAsync hs256 now (JwtModule_secret env)) env e = Inl SigningError)"
  by (simp add: login_signed JwtModule_secret_def)

theorem login_token_witness:
  "[''JWT_SECRET'' \<mapsto> ''s3cret''] ''JWT_SECRET'' = Some ''s3cret'' \<and> ''s3cret'' \<noteq> []
   \<and> login (JwtService_signAsync toy_hs256 1700000000
              (JwtModule_secret [''JWT_SECRET'' \<mapsto> ''s3cret'']))
        [''JWT_SECRET'' \<mapsto> ''s3cret''] ''a@b.com'' =
       Inr (JObj [(''token'',
         JStr (toy_hs256 (JObj [(''user'', JObj [(''email'', JStr ''a@b.com'')]),
                                (''iat'', JNum 1700000000),
                                (''exp'', JNum 1700000600)]) ''s3cret''))])
   \<and> toy_hs256 (JObj [(''user'', JObj [(''email'', JStr ''a@b.com'')]),
                       (''iat'', JNum 1700000000),
                       (''exp'', JNum 1700000600)]) ''s3cret'' = ''jwt:a@b.com:s3cret''"
proof -
  have k: "[''JWT_SECRET'' \<mapsto> ''s3cret''] ''JWT_SECRET'' = Some ''s3cret'' \<and> ''s3cret'' \<noteq> []"
    by simp
  have t: "toy_hs256 (JObj [(''user'', JObj [(''email'', JStr ''a@b.com'')]),
                            (''iat'', JNum 1700000000),
                            (''exp'', JNum 1700000600)]) ''s3cret'' = ''jwt:a@b.com:s3cret''"
    by (simp add: toy_hs256_def)
  have "login (JwtService_signAsync toy_hs256 1700000000
              (JwtModule_secret [''JWT_SECRET'' \<mapsto> ''s3cret'']))
        [''JWT_SECRET'' \<mapsto> ''s3cret''] ''a@b.com'' =
       Inr (JObj [(''token'',
         JStr (toy_hs256 (JObj [(''user'', JObj [(''email'', JStr ''a@b.com'')]),
                                (''iat'', JNum (of_nat 1700000000)),
                                (''exp'', JNum (of_nat (1700000000 + 600)))]) ''s3cret''))])"
    using k login_token [of "[''JWT_SECRET'' \<mapsto> ''s3cret'']" "''s3cret''" toy_hs256 1700000000
        "''a@b.com''"]
    by blast
  then show ?thesis
    using k t by simp
qed

section \<open>What the user endpoints send back\<close>




end
